theory Spec2Isabelle
  imports Main
begin

section \<open>The credits table behind the storage client\<close>

text \<open>
  The ledger of \<^verbatim>\<open>src/index.js\<close> lives in one table, \<^verbatim>\<open>credits\<close>, reached through
  the storage client \<^verbatim>\<open>supabaseAdmin\<close>. A row carries the account identifier
  \<^verbatim>\<open>user_id\<close> and the balance \<^verbatim>\<open>remaining_seconds\<close>. The source declares no key on
  the table, so the table is a list of rows: two rows may carry the same \<^verbatim>\<open>user_id\<close>.
  The table holds integers, as the column name and the data model of the specification
  say. The schema is not part of the repository: the column is taken to store every number
  it is sent. The repository carries several revisions of \<^verbatim>\<open>index.js\<close>; the three
  ledger handlers are the same in all of them.
\<close>

type_synonym uid = string

record credits_row =
  user_id :: uid
  remaining_seconds :: int

type_synonym credits_table = "credits_row list"

section \<open>Numbers as the handlers see them\<close>

text \<open>
  Inside the handlers every number is a JavaScript number, an IEEE 754 binary64 value with
  a significand of 53 bits. An integer of magnitude up to \<open>2^53 = 9007199254740992\<close> is
  represented exactly; a larger one only when it is a multiple of the spacing of the binary64
  values around it. \<open>ulp a\<close> is that spacing for a magnitude \<open>a\<close>: 1 below \<open>2^53\<close>, doubling
  with every further bit.
\<close>

function ulp :: "int \<Rightarrow> int" where
  "ulp a = (if a < 9007199254740992 then 1 else 2 * ulp (a div 2))"
  by pat_completeness auto
termination
  by (relation "measure nat") auto

declare ulp.simps [simp del]

text \<open>
  \<open>round_binary64 z\<close> is the binary64 value nearest to the integer \<open>z\<close>, a tie going to the
  value with the even significand (the rounding of \<^verbatim>\<open>JSON.parse\<close> and of \<^verbatim>\<open>+\<close> and
  \<^verbatim>\<open>-\<close>). Binary64 has no finite value from \<open>2^1024\<close> on; an integer column holds no
  such magnitude, and they are outside the model.
\<close>

definition round_binary64 :: "int \<Rightarrow> int" where
  "round_binary64 z =
     (let a = \<bar>z\<bar>;
          e = ulp a;
          q = a div e;
          r = a mod e;
          q' = (if 2 * r < e then q
                else if e < 2 * r then q + 1
                else if even q then q else q + 1)
      in sgn z * (q' * e))"

text \<open>
  \<open>json_number\<close> is the number that \<^verbatim>\<open>JSON.parse\<close> makes of an integer literal, in a
  response of the storage client or in a request body. \<open>js_add\<close> and \<open>js_sub\<close> are
  \<^verbatim>\<open>x + y\<close> and \<^verbatim>\<open>x - y\<close> on two such numbers: the exact result, rounded.
\<close>

definition json_number :: "int \<Rightarrow> int" where
  "json_number z = round_binary64 z"

definition js_add :: "int \<Rightarrow> int \<Rightarrow> int" where
  "js_add x y = round_binary64 (x + y)"

definition js_sub :: "int \<Rightarrow> int \<Rightarrow> int" where
  "js_sub x y = round_binary64 (x - y)"

text \<open>\<^verbatim>\<open>Number.MAX_SAFE_INTEGER\<close> and \<^verbatim>\<open>Number.isSafeInteger\<close>.\<close>

definition max_safe_integer :: int where
  "max_safe_integer = 9007199254740991"

definition safe_integer :: "int \<Rightarrow> bool" where
  "safe_integer z = (\<bar>z\<bar> \<le> max_safe_integer)"

section \<open>The storage client\<close>

text \<open>The rows selected by \<^verbatim>\<open>.eq("user_id", u)\<close>.\<close>

definition matching :: "uid \<Rightarrow> credits_table \<Rightarrow> credits_row list" where
  "matching u tbl = filter (\<lambda>r. user_id r = u) tbl"

text \<open>
  A call of the storage client never throws: it resolves to \<^verbatim>\<open>{ data, error }\<close>. The
  handlers read \<^verbatim>\<open>data\<close> only. The flag \<open>down\<close> says that the call does not reach the
  database; then \<^verbatim>\<open>data\<close> is \<^verbatim>\<open>null\<close> and nothing is written.

  \<^verbatim>\<open>.select(..).eq("user_id", u).single()\<close> yields the row when exactly one row matches
  and \<^verbatim>\<open>null\<close> otherwise (no row, or several). The row arrives as JSON, so the handler
  reads its balance as \<open>json_number\<close> of what the table holds.
\<close>

definition parse_row :: "credits_row \<Rightarrow> credits_row" where
  "parse_row r = r\<lparr>remaining_seconds := json_number (remaining_seconds r)\<rparr>"

definition select_eq_single :: "bool \<Rightarrow> credits_table \<Rightarrow> uid \<Rightarrow> credits_row option" where
  "select_eq_single down tbl u =
     (if down then None
      else (case matching u tbl of [r] \<Rightarrow> Some (parse_row r) | _ \<Rightarrow> None))"

text \<open>\<^verbatim>\<open>.insert(row)\<close> appends a row.\<close>

definition insert_row :: "bool \<Rightarrow> credits_table \<Rightarrow> credits_row \<Rightarrow> credits_table" where
  "insert_row down tbl r = (if down then tbl else tbl @ [r])"

text \<open>\<^verbatim>\<open>.update({ remaining_seconds: v }).eq("user_id", u)\<close> rewrites every matching row.\<close>

definition update_eq :: "bool \<Rightarrow> credits_table \<Rightarrow> uid \<Rightarrow> int \<Rightarrow> credits_table" where
  "update_eq down tbl u v =
     (if down then tbl
      else map (\<lambda>r. if user_id r = u then r\<lparr>remaining_seconds := v\<rparr> else r) tbl)"

text \<open>
  A request carries the list of its storage calls that fail, in call order: \<open>call_fails fl i\<close>
  says that the \<open>i\<close>-th call of the request fails. The empty list is a healthy backend.
\<close>

definition call_fails :: "bool list \<Rightarrow> nat \<Rightarrow> bool" where
  "call_fails fl i = (i < length fl \<and> fl ! i)"

section \<open>The three ledger handlers\<close>

text \<open>
  A handler either answers with \<^verbatim>\<open>res.json(..)\<close> (status 200) or throws before it answers.
  The only throw in the ledger is the \<^verbatim>\<open>TypeError\<close> of reading
  \<^verbatim>\<open>data.remaining_seconds\<close> when \<^verbatim>\<open>data\<close> is \<^verbatim>\<open>null\<close>; the handlers are \<^verbatim>\<open>async\<close>
  functions with no \<^verbatim>\<open>try\<close>, so the throw rejects the handler's promise and no response
  is written.
\<close>

datatype reply = Message string | Remaining int | Exhausted bool

datatype js_error = TypeError

datatype outcome = Json reply | Threw js_error

text \<open>
  \<^verbatim>\<open>POST /admin/add-credits { userId, seconds }\<close> (Grant):
  \<^verbatim>\<open>
  const { data } = await supabaseAdmin.from("credits").select("*").eq("user_id", userId).single();
  if (!data) {
    await supabaseAdmin.from("credits").insert({ user_id: userId, remaining_seconds: seconds });
  } else {
    await supabaseAdmin.from("credits")
      .update({ remaining_seconds: data.remaining_seconds + seconds }).eq("user_id", userId);
  }
  res.json({ message: "Credits added" });
  \<close>
  The fourth argument is the integer written in the request body; \<^verbatim>\<open>seconds\<close> is the
  number the body parser makes of it. The handler does not check \<^verbatim>\<open>seconds\<close>: a body
  whose \<^verbatim>\<open>seconds\<close> is not an integer (a string, a fraction, nothing) reaches the same
  code, and what the database then stores depends on the type of the column, which the
  repository does not give; such bodies are outside the model.
\<close>

definition admin_add_credits ::
  "bool list \<Rightarrow> credits_table \<Rightarrow> uid \<Rightarrow> int \<Rightarrow> outcome \<times> credits_table" where
  "admin_add_credits fl tbl userId body_seconds =
     (let seconds = json_number body_seconds
      in case select_eq_single (call_fails fl 0) tbl userId of
           None \<Rightarrow>
             (Json (Message ''Credits added''),
              insert_row (call_fails fl 1) tbl
                \<lparr>user_id = userId, remaining_seconds = seconds\<rparr>)
         | Some d \<Rightarrow>
             (Json (Message ''Credits added''),
              update_eq (call_fails fl 1) tbl userId (js_add (remaining_seconds d) seconds)))"

text \<open>
  \<^verbatim>\<open>GET /credits/:uid\<close> (GetBalance):
  \<^verbatim>\<open>
  const { data } = await supabaseAdmin.from("credits").select("remaining_seconds")
    .eq("user_id", req.params.uid).single();
  res.json({ remaining: data.remaining_seconds });
  \<close>
\<close>

definition credits_uid :: "bool list \<Rightarrow> credits_table \<Rightarrow> uid \<Rightarrow> outcome" where
  "credits_uid fl tbl u =
     (case select_eq_single (call_fails fl 0) tbl u of
        None \<Rightarrow> Threw TypeError
      | Some d \<Rightarrow> Json (Remaining (remaining_seconds d)))"

text \<open>
  \<^verbatim>\<open>POST /tick { userId }\<close> (Tick):
  \<^verbatim>\<open>
  const { data } = await supabaseAdmin.from("credits").select("*").eq("user_id", userId).single();
  if (data.remaining_seconds <= 0)
    return res.json({ exhausted: true });
  await supabaseAdmin.from("credits")
    .update({ remaining_seconds: data.remaining_seconds - 1 }).eq("user_id", userId);
  res.json({ exhausted: false });
  \<close>
\<close>

definition tick :: "bool list \<Rightarrow> credits_table \<Rightarrow> uid \<Rightarrow> outcome \<times> credits_table" where
  "tick fl tbl userId =
     (case select_eq_single (call_fails fl 0) tbl userId of
        None \<Rightarrow> (Threw TypeError, tbl)
      | Some d \<Rightarrow>
          if remaining_seconds d \<le> 0 then (Json (Exhausted True), tbl)
          else (Json (Exhausted False),
                update_eq (call_fails fl 1) tbl userId (js_sub (remaining_seconds d) 1)))"

section \<open>Requests issued one after another\<close>

text \<open>
  A caller's view of the ledger: a request names the account and is either a Grant of an
  amount (\<^verbatim>\<open>POST /admin/add-credits\<close>) or a Tick (\<^verbatim>\<open>POST /tick\<close>). \<open>run_requests\<close>
  serves a list of requests against a healthy backend, each request finishing before the
  next one starts, and collects the outcomes.
\<close>

datatype ledger_op = Grant int | Tick

type_synonym request = "uid \<times> ledger_op"

fun handle :: "credits_table \<Rightarrow> request \<Rightarrow> outcome \<times> credits_table" where
  "handle tbl (u, Grant n) = admin_add_credits [] tbl u n"
| "handle tbl (u, Tick) = tick [] tbl u"

fun run_requests :: "credits_table \<Rightarrow> request list \<Rightarrow> outcome list \<times> credits_table" where
  "run_requests tbl [] = ([], tbl)"
| "run_requests tbl (x # xs) =
     (let (r, tbl1) = handle tbl x;
          (rs, tbl2) = run_requests tbl1 xs
      in (r # rs, tbl2))"

text \<open>The sum of the amounts granted by a list of operations.\<close>

fun granted :: "ledger_op list \<Rightarrow> int" where
  "granted [] = 0"
| "granted (Grant n # xs) = n + granted xs"
| "granted (Tick # xs) = granted xs"

text \<open>The number of outcomes that are \<^verbatim>\<open>{ exhausted: false }\<close>.\<close>

definition successful_ticks :: "outcome list \<Rightarrow> nat" where
  "successful_ticks outs = count_list outs (Json (Exhausted False))"

definition nonneg_amount :: "request \<Rightarrow> bool" where
  "nonneg_amount x = (case snd x of Grant n \<Rightarrow> 0 \<le> n | Tick \<Rightarrow> True)"

definition nonneg_table :: "credits_table \<Rightarrow> bool" where
  "nonneg_table tbl = list_all (\<lambda>r. 0 \<le> remaining_seconds r) tbl"

text \<open>
  \<open>stays_safe b ops\<close>: starting from the balance \<open>b\<close>, every granted amount and every
  balance that exact integer arithmetic reaches along \<open>ops\<close> is a safe integer.
\<close>

fun stays_safe :: "int \<Rightarrow> ledger_op list \<Rightarrow> bool" where
  "stays_safe b [] = safe_integer b"
| "stays_safe b (Grant n # xs) = (safe_integer b \<and> safe_integer n \<and> stays_safe (b + n) xs)"
| "stays_safe b (Tick # xs) = (safe_integer b \<and> stays_safe (if b \<le> 0 then b else b - 1) xs)"

section \<open>Overlapping Tick requests\<close>

text \<open>
  The Tick handler reaches the database twice, at its two \<^verbatim>\<open>await\<close>s: first the select,
  then the update with the value \<^verbatim>\<open>data.remaining_seconds - 1\<close> computed from what the
  select returned. Between the two, other requests may be served. A request in flight is
  \<open>Pending\<close> before its select, \<open>Updating v\<close> when its update of the balance to \<open>v\<close> is
  still to reach the database, and \<open>Finished\<close> with its outcome. \<open>tick_step\<close> performs the
  next database access of one request on a healthy backend.
\<close>

datatype tick_req = Pending | Updating int | Finished outcome

definition tick_step :: "credits_table \<Rightarrow> uid \<Rightarrow> tick_req \<Rightarrow> tick_req \<times> credits_table" where
  "tick_step tbl userId q =
     (case q of
        Pending \<Rightarrow>
          (case select_eq_single False tbl userId of
             None \<Rightarrow> (Finished (Threw TypeError), tbl)
           | Some d \<Rightarrow>
               if remaining_seconds d \<le> 0 then (Finished (Json (Exhausted True)), tbl)
               else (Updating (js_sub (remaining_seconds d) 1), tbl))
      | Updating v \<Rightarrow> (Finished (Json (Exhausted False)), update_eq False tbl userId v)
      | Finished r \<Rightarrow> (Finished r, tbl))"


text \<open>
  Bookkeeping for overlapping requests: the number of requests that have finished, and the
  condition under which no finished request was refused.
\<close>

fun done_weight :: "tick_req \<Rightarrow> nat" where
  "done_weight (Finished r) = 1"
| "done_weight q = 0"

definition finished_count :: "tick_req list \<Rightarrow> nat" where
  "finished_count qs = sum_list (map done_weight qs)"






section \<open>Facts about the numbers\<close>

lemma ulp_small: "a < 9007199254740992 \<Longrightarrow> ulp a = 1"
  by (subst ulp.simps) simp

lemma ulp_pos: "0 < ulp a"
  by (induction a rule: ulp.induct) (subst ulp.simps, simp)

lemma round_binary64_small: "\<bar>z\<bar> \<le> 9007199254740991 \<Longrightarrow> round_binary64 z = z"
  by (simp add: round_binary64_def ulp_small mult_sgn_abs)

lemma round_binary64_nonneg: "0 \<le> z \<Longrightarrow> 0 \<le> round_binary64 z"
proof -
  assume z: "0 \<le> z"
  have e: "0 < ulp \<bar>z\<bar>" by (rule ulp_pos)
  then have q: "0 \<le> \<bar>z\<bar> div ulp \<bar>z\<bar>"
    by (simp add: pos_imp_zdiv_nonneg_iff)
  from z have "0 \<le> sgn z" by (simp add: sgn_if)
  with e q show ?thesis
    by (simp add: round_binary64_def Let_def)
qed

lemma round_binary64_nonpos: "z \<le> 0 \<Longrightarrow> round_binary64 z \<le> 0"
proof -
  assume z: "z \<le> 0"
  have e: "0 < ulp \<bar>z\<bar>" by (rule ulp_pos)
  then have q: "0 \<le> \<bar>z\<bar> div ulp \<bar>z\<bar>"
    by (simp add: pos_imp_zdiv_nonneg_iff)
  from z have "sgn z \<le> 0" by (simp add: sgn_if)
  with e q show ?thesis
    by (simp add: round_binary64_def Let_def mult_le_0_iff)
qed

lemma round_binary64_pos: "0 < round_binary64 z \<Longrightarrow> 0 < z"
  using round_binary64_nonpos [of z] by linarith

lemma json_number_small: "\<bar>z\<bar> \<le> 9007199254740991 \<Longrightarrow> json_number z = z"
  by (simp add: json_number_def round_binary64_small)

lemma js_add_small: "\<bar>x + y\<bar> \<le> 9007199254740991 \<Longrightarrow> js_add x y = x + y"
  by (simp add: js_add_def round_binary64_small)

lemma js_sub_small: "\<bar>x - y\<bar> \<le> 9007199254740991 \<Longrightarrow> js_sub x y = x - y"
  by (simp add: js_sub_def round_binary64_small)

lemma json_number_safe: "safe_integer z \<Longrightarrow> json_number z = z"
  by (simp add: safe_integer_def max_safe_integer_def json_number_small)

lemma js_add_safe: "safe_integer (x + y) \<Longrightarrow> js_add x y = x + y"
  by (simp add: safe_integer_def max_safe_integer_def js_add_small)

lemma js_sub_safe: "safe_integer (x - y) \<Longrightarrow> js_sub x y = x - y"
  by (simp add: safe_integer_def max_safe_integer_def js_sub_small)

lemma binary64_near_2p53:
  "round_binary64 9007199254740992 = 9007199254740992"
  "round_binary64 9007199254740993 = 9007199254740992"
  "round_binary64 9007199254740994 = 9007199254740994"
  by code_simp+

section \<open>Facts about the storage calls\<close>

lemma call_fails_Nil [simp]: "call_fails [] i = False"
  by (simp add: call_fails_def)

lemma matching_update_same:
  "matching u (update_eq False tbl u v) =
     map (\<lambda>r. r\<lparr>remaining_seconds := v\<rparr>) (matching u tbl)"
  by (induction tbl) (simp_all add: matching_def update_eq_def)

lemma matching_update_other:
  "a \<noteq> b \<Longrightarrow> matching b (update_eq down tbl a v) = matching b tbl"
  by (induction tbl) (auto simp: matching_def update_eq_def)

lemma matching_insert_other:
  "a \<noteq> b \<Longrightarrow>
   matching b (insert_row down tbl \<lparr>user_id = a, remaining_seconds = v\<rparr>) = matching b tbl"
  by (simp add: matching_def insert_row_def)


lemma select_single_iff:
  "select_eq_single False tbl u = Some d \<longleftrightarrow> (\<exists>r. matching u tbl = [r] \<and> d = parse_row r)"
  by (auto simp: select_eq_single_def split: list.splits)

lemma select_after_update:
  "select_eq_single False tbl u = Some d \<Longrightarrow>
   select_eq_single False (update_eq False tbl u v) u
     = Some (d\<lparr>remaining_seconds := json_number v\<rparr>)"
  by (auto simp: select_single_iff matching_update_same parse_row_def)

lemma select_member:
  "select_eq_single down tbl u = Some d \<Longrightarrow> \<exists>r\<in>set tbl. d = parse_row r"
proof -
  assume a: "select_eq_single down tbl u = Some d"
  then obtain r where r: "matching u tbl = [r]" and d: "d = parse_row r"
    by (auto simp: select_eq_single_def split: if_splits list.splits)
  from r have "r \<in> set (filter (\<lambda>r. user_id r = u) tbl)"
    by (simp add: matching_def)
  with d show ?thesis by auto
qed


lemma select_none_if_no_row:
  "matching u tbl = [] \<Longrightarrow> select_eq_single down tbl u = None"
  by (simp add: select_eq_single_def)

section \<open>Facts about the handlers\<close>

lemma tick_as_two_steps:
  "(case tick_step tbl u Pending of (q, tbl1) \<Rightarrow> tick_step tbl1 u q)
     = (Finished (fst (tick [] tbl u)), snd (tick [] tbl u))"
  by (simp add: tick_step_def tick_def split: option.splits)

lemma credits_uid_of_select:
  "select_eq_single False tbl u = Some d \<Longrightarrow>
   credits_uid [] tbl u = Json (Remaining (remaining_seconds d))"
  by (simp add: credits_uid_def)

lemma add_credits_answer:
  "fst (admin_add_credits fl tbl u n) = Json (Message ''Credits added'')"
  by (simp add: admin_add_credits_def Let_def split: option.splits)

lemma add_credits_existing:
  "select_eq_single False tbl u = Some d \<Longrightarrow> safe_integer n \<Longrightarrow>
   safe_integer (remaining_seconds d + n) \<Longrightarrow>
   select_eq_single False (snd (admin_add_credits [] tbl u n)) u
     = Some (d\<lparr>remaining_seconds := remaining_seconds d + n\<rparr>)"
  by (simp add: admin_add_credits_def select_after_update json_number_safe js_add_safe)


lemma tick_answer:
  "select_eq_single False tbl u = Some d \<Longrightarrow>
   fst (tick [] tbl u) = Json (Exhausted (remaining_seconds d \<le> 0))"
  by (simp add: tick_def)

lemma tick_existing:
  "select_eq_single False tbl u = Some d \<Longrightarrow> safe_integer (remaining_seconds d) \<Longrightarrow>
   select_eq_single False (snd (tick [] tbl u)) u
     = Some (d\<lparr>remaining_seconds :=
               (if remaining_seconds d \<le> 0 then remaining_seconds d
                else remaining_seconds d - 1)\<rparr>)"
proof (cases "remaining_seconds d \<le> 0")
  case True
  assume "select_eq_single False tbl u = Some d"
  with True show ?thesis by (simp add: tick_def)
next
  case False
  assume sel: "select_eq_single False tbl u = Some d"
    and safe: "safe_integer (remaining_seconds d)"
  from False safe have s1: "safe_integer (remaining_seconds d - 1)"
    by (simp add: safe_integer_def)
  with sel False show ?thesis
    by (simp add: tick_def select_after_update js_sub_safe json_number_safe)
qed

lemma run_requests_Cons:
  "run_requests tbl (x # xs) =
     (fst (handle tbl x) # fst (run_requests (snd (handle tbl x)) xs),
      snd (run_requests (snd (handle tbl x)) xs))"
  by (simp add: split_beta)

lemma stays_safe_start: "stays_safe b ops \<Longrightarrow> safe_integer b"
  by (cases ops rule: granted.cases) simp_all

lemma run_requests_existing:
  "select_eq_single False tbl u = Some d \<Longrightarrow> stays_safe (remaining_seconds d) ops \<Longrightarrow>
   select_eq_single False (snd (run_requests tbl (map (Pair u) ops))) u
     = Some (d\<lparr>remaining_seconds := remaining_seconds d + granted ops
               - int (successful_ticks (fst (run_requests tbl (map (Pair u) ops))))\<rparr>)"
proof (induction ops arbitrary: tbl d)
  case Nil
  then show ?case by (simp add: successful_ticks_def)
next
  case (Cons x xs)
  show ?case
  proof (cases x)
    case (Grant n)
    with Cons.prems(2) have n: "safe_integer n"
      and sum: "stays_safe (remaining_seconds d + n) xs"
      by simp_all
    from sum have "safe_integer (remaining_seconds d + n)"
      by (rule stays_safe_start)
    from add_credits_existing [OF Cons.prems(1) n this]
    have s: "select_eq_single False (snd (handle tbl (u, Grant n))) u
               = Some (d\<lparr>remaining_seconds := remaining_seconds d + n\<rparr>)"
      by simp
    have o: "fst (handle tbl (u, Grant n)) = Json (Message ''Credits added'')"
      by (simp add: add_credits_answer)
    from sum have "stays_safe (remaining_seconds (d\<lparr>remaining_seconds := remaining_seconds d + n\<rparr>)) xs"
      by simp
    from Cons.IH [OF s this] o Grant show ?thesis
      by (simp add: run_requests_Cons successful_ticks_def del: handle.simps run_requests.simps)
  next
    case Tick
    let ?b = "if remaining_seconds d \<le> 0 then remaining_seconds d else remaining_seconds d - 1"
    from Tick Cons.prems(2) have safe: "safe_integer (remaining_seconds d)"
      and rest: "stays_safe ?b xs"
      by simp_all
    from tick_existing [OF Cons.prems(1) safe]
    have s: "select_eq_single False (snd (handle tbl (u, Tick))) u
               = Some (d\<lparr>remaining_seconds := ?b\<rparr>)"
      by simp
    from tick_answer [OF Cons.prems(1)]
    have o: "fst (handle tbl (u, Tick)) = Json (Exhausted (remaining_seconds d \<le> 0))"
      by simp
    from rest have "stays_safe (remaining_seconds (d\<lparr>remaining_seconds := ?b\<rparr>)) xs"
      by simp
    from Cons.IH [OF s this] o Tick show ?thesis
      by (simp add: run_requests_Cons successful_ticks_def del: handle.simps run_requests.simps)
  qed
qed

lemma parse_row_nonneg:
  "0 \<le> remaining_seconds r \<Longrightarrow> 0 \<le> remaining_seconds (parse_row r)"
  by (simp add: parse_row_def json_number_def round_binary64_nonneg)

lemma select_nonneg:
  "nonneg_table tbl \<Longrightarrow> select_eq_single down tbl u = Some d \<Longrightarrow> 0 \<le> remaining_seconds d"
  by (auto simp: nonneg_table_def list_all_iff parse_row_nonneg dest!: select_member)

lemma nonneg_update:
  "nonneg_table tbl \<Longrightarrow> 0 \<le> v \<Longrightarrow> nonneg_table (update_eq down tbl u v)"
  by (auto simp: nonneg_table_def update_eq_def list_all_iff)

lemma nonneg_insert:
  "nonneg_table tbl \<Longrightarrow> 0 \<le> v \<Longrightarrow>
   nonneg_table (insert_row down tbl \<lparr>user_id = u, remaining_seconds = v\<rparr>)"
  by (auto simp: nonneg_table_def insert_row_def list_all_iff)

lemma nonneg_tick: "nonneg_table tbl \<Longrightarrow> nonneg_table (snd (tick fl tbl u))"
  by (auto simp: tick_def js_sub_def nonneg_update round_binary64_nonneg split: option.splits)

lemma nonneg_add_credits:
  assumes tbl: "nonneg_table tbl" and n: "0 \<le> n"
  shows "nonneg_table (snd (admin_add_credits fl tbl u n))"
proof (cases "select_eq_single (call_fails fl 0) tbl u")
  case None
  from n have "0 \<le> json_number n"
    by (simp add: json_number_def round_binary64_nonneg)
  with tbl None show ?thesis
    by (simp add: admin_add_credits_def nonneg_insert)
next
  case (Some d)
  from n have "0 \<le> json_number n"
    by (simp add: json_number_def round_binary64_nonneg)
  moreover from tbl Some have "0 \<le> remaining_seconds d"
    by (rule select_nonneg)
  ultimately have "0 \<le> js_add (remaining_seconds d) (json_number n)"
    by (simp add: js_add_def round_binary64_nonneg)
  with tbl Some show ?thesis
    by (simp add: admin_add_credits_def nonneg_update)
qed

lemma nonneg_handle:
  "nonneg_table tbl \<Longrightarrow> nonneg_amount x \<Longrightarrow> nonneg_table (snd (handle tbl x))"
  by (cases x; cases "snd x") (auto simp: nonneg_amount_def nonneg_tick nonneg_add_credits)

lemma nonneg_run_requests:
  "nonneg_table tbl \<Longrightarrow> list_all nonneg_amount reqs \<Longrightarrow>
   nonneg_table (snd (run_requests tbl reqs))"
proof (induction reqs arbitrary: tbl)
  case Nil
  then show ?case by simp
next
  case (Cons x xs)
  then show ?case
    by (simp add: run_requests_Cons nonneg_handle del: run_requests.simps)
qed

lemma credits_uid_nonneg:
  "nonneg_table tbl \<Longrightarrow> credits_uid fl tbl u = Json (Remaining v) \<Longrightarrow> 0 \<le> v"
  by (auto simp: credits_uid_def split: option.splits dest: select_nonneg)

section \<open>Overlapping requests keep the invariant\<close>




lemma finished_count_replicate:
  "finished_count (replicate K (Finished r)) = K"
  by (induction K) (simp_all add: finished_count_def)













section \<open>Claim C1: Tick requests against one account\<close>




section \<open>Claims C2 and C3: Tick on an existing record\<close>

text \<open>
  Claim C2, as stated, fails above the safe integers. On a record holding
  \<open>N = 2^53 + 2 = 9007199254740994\<close> the handler computes \<open>N - 1\<close> in binary64; \<open>2^53 + 1\<close>
  is not a binary64 value and rounds to \<open>2^53\<close>, so Tick answers \<open>exhausted = false\<close> and
  stores \<open>N - 2\<close>.
\<close>

theorem tick_rounds_above_safe:
  "select_eq_single False [\<lparr>user_id = ''u1'', remaining_seconds = 9007199254740994\<rparr>] ''u1''
     = Some \<lparr>user_id = ''u1'', remaining_seconds = 9007199254740994\<rparr>
   \<and> tick [] [\<lparr>user_id = ''u1'', remaining_seconds = 9007199254740994\<rparr>] ''u1''
     = (Json (Exhausted False), [\<lparr>user_id = ''u1'', remaining_seconds = 9007199254740992\<rparr>])
   \<and> credits_uid []
        (snd (tick [] [\<lparr>user_id = ''u1'', remaining_seconds = 9007199254740994\<rparr>] ''u1'')) ''u1''
     \<noteq> Json (Remaining (9007199254740994 - 1))"
proof -
  have a: "tick [] [\<lparr>user_id = ''u1'', remaining_seconds = 9007199254740994\<rparr>] ''u1''
     = (Json (Exhausted False), [\<lparr>user_id = ''u1'', remaining_seconds = 9007199254740992\<rparr>])"
    by (simp add: tick_def update_eq_def select_eq_single_def matching_def parse_row_def
                  json_number_def js_sub_def binary64_near_2p53)
  show ?thesis
    unfolding a
    by (simp add: credits_uid_def select_eq_single_def matching_def parse_row_def
                  json_number_def binary64_near_2p53)
qed

text \<open>
  Claim C2, amended. When the account has its balance record, with
  \<open>0 < N \<le> 2^53 - 1\<close>, and the backend is healthy, Tick answers \<open>exhausted = false\<close> and
  the account's record then holds exactly \<open>N - 1\<close>, which is what GetBalance reports
  afterwards.
\<close>

theorem tick_positive_decrements:
  assumes "select_eq_single False tbl u = Some d"
    and "0 < remaining_seconds d"
    and "remaining_seconds d \<le> max_safe_integer"
  shows "fst (tick [] tbl u) = Json (Exhausted False)
       \<and> select_eq_single False (snd (tick [] tbl u)) u
           = Some (d\<lparr>remaining_seconds := remaining_seconds d - 1\<rparr>)
       \<and> credits_uid [] (snd (tick [] tbl u)) u = Json (Remaining (remaining_seconds d - 1))"
proof -
  from assms(2,3) have safe: "safe_integer (remaining_seconds d)"
    by (simp add: safe_integer_def)
  from tick_answer [OF assms(1)] assms(2)
  have a: "fst (tick [] tbl u) = Json (Exhausted False)" by simp
  from tick_existing [OF assms(1) safe] assms(2)
  have b: "select_eq_single False (snd (tick [] tbl u)) u
           = Some (d\<lparr>remaining_seconds := remaining_seconds d - 1\<rparr>)" by simp
  from credits_uid_of_select [OF b]
  have c: "credits_uid [] (snd (tick [] tbl u)) u = Json (Remaining (remaining_seconds d - 1))"
    by simp
  from a b c show ?thesis by (intro conjI)
qed

theorem tick_positive_decrements_witness:
  "select_eq_single False [\<lparr>user_id = ''u1'', remaining_seconds = 3\<rparr>] ''u1''
     = Some \<lparr>user_id = ''u1'', remaining_seconds = 3\<rparr>
   \<and> (0::int) < 3
   \<and> (3::int) \<le> max_safe_integer
   \<and> fst (tick [] [\<lparr>user_id = ''u1'', remaining_seconds = 3\<rparr>] ''u1'') = Json (Exhausted False)
   \<and> credits_uid [] (snd (tick [] [\<lparr>user_id = ''u1'', remaining_seconds = 3\<rparr>] ''u1'')) ''u1''
     = Json (Remaining 2)"
proof -
  have h: "select_eq_single False [\<lparr>user_id = ''u1'', remaining_seconds = 3\<rparr>] ''u1''
     = Some \<lparr>user_id = ''u1'', remaining_seconds = 3\<rparr>"
    by (simp add: select_eq_single_def matching_def parse_row_def json_number_small js_add_small js_sub_small)
  have p: "0 < remaining_seconds \<lparr>user_id = ''u1'', remaining_seconds = 3\<rparr>" by simp
  have m: "remaining_seconds \<lparr>user_id = ''u1'', remaining_seconds = 3\<rparr> \<le> max_safe_integer"
    by (simp add: max_safe_integer_def)
  note t = tick_positive_decrements [OF h p m]
  have a: "fst (tick [] [\<lparr>user_id = ''u1'', remaining_seconds = 3\<rparr>] ''u1'')
             = Json (Exhausted False)"
    by (rule t [THEN conjunct1])
  have b: "credits_uid [] (snd (tick [] [\<lparr>user_id = ''u1'', remaining_seconds = 3\<rparr>] ''u1''))
             ''u1'' = Json (Remaining 2)"
    using t [THEN conjunct2, THEN conjunct2] by simp
  have i: "(0::int) < 3" by simp
  have s: "(3::int) \<le> max_safe_integer" by (simp add: max_safe_integer_def)
  from h i s a b show ?thesis by (intro conjI)
qed

text \<open>
  Claim C3. When the account has its balance record, with \<open>remaining_seconds \<le> 0\<close>, Tick
  answers \<open>exhausted = true\<close> and leaves the whole table, hence the balance, as it was.
\<close>

theorem tick_exhausted_no_change:
  assumes "select_eq_single False tbl u = Some d"
    and "remaining_seconds d \<le> 0"
  shows "tick [] tbl u = (Json (Exhausted True), tbl)"
  using assms by (simp add: tick_def)

theorem tick_exhausted_no_change_witness:
  "select_eq_single False [\<lparr>user_id = ''u1'', remaining_seconds = 0\<rparr>] ''u1''
     = Some \<lparr>user_id = ''u1'', remaining_seconds = 0\<rparr>
   \<and> tick [] [\<lparr>user_id = ''u1'', remaining_seconds = 0\<rparr>] ''u1''
     = (Json (Exhausted True), [\<lparr>user_id = ''u1'', remaining_seconds = 0\<rparr>])"
proof -
  have h: "select_eq_single False [\<lparr>user_id = ''u1'', remaining_seconds = 0\<rparr>] ''u1''
     = Some \<lparr>user_id = ''u1'', remaining_seconds = 0\<rparr>"
    by (simp add: select_eq_single_def matching_def parse_row_def json_number_small js_add_small js_sub_small)
  from tick_exhausted_no_change [OF h] h show ?thesis
    by simp
qed

section \<open>Claim C4: the balance never goes below zero\<close>

text \<open>
  Claim C4, as stated, fails: the Grant handler adds whatever amount it is given. A Grant of
  \<open>-1\<close> on a balance of 0 succeeds, and GetBalance then reports \<open>-1\<close>.
\<close>

theorem negative_grant_negative_balance:
  "credits_uid []
     (snd (run_requests [\<lparr>user_id = ''u1'', remaining_seconds = 0\<rparr>] [(''u1'', Grant (- 1))]))
     ''u1'' = Json (Remaining (- 1))"
  by (simp add: admin_add_credits_def credits_uid_def update_eq_def select_eq_single_def matching_def parse_row_def json_number_small js_add_small js_sub_small)

text \<open>
  Claim C4, amended. Starting from a table whose balances are all non-negative, after
  every prefix of every sequence of Tick requests and of Grant requests with non-negative
  amounts (for any accounts, each request served before the next), every balance in the
  table is non-negative, and every balance that GetBalance reports is non-negative.
\<close>

theorem balance_never_negative:
  assumes "nonneg_table tbl"
    and "list_all nonneg_amount reqs"
  shows "nonneg_table (snd (run_requests tbl (take k reqs)))
       \<and> (credits_uid [] (snd (run_requests tbl (take k reqs))) u = Json (Remaining v)
            \<longrightarrow> 0 \<le> v)"
proof -
  from assms(2) have "list_all nonneg_amount (take k reqs)"
    by (auto simp: list_all_iff dest: in_set_takeD)
  with assms(1) have "nonneg_table (snd (run_requests tbl (take k reqs)))"
    by (rule nonneg_run_requests)
  then show ?thesis
    by (auto dest: credits_uid_nonneg)
qed

theorem balance_never_negative_witness:
  "nonneg_table [\<lparr>user_id = ''u1'', remaining_seconds = 1\<rparr>]
   \<and> list_all nonneg_amount [(''u1'', Tick), (''u1'', Tick), (''u1'', Grant 4)]
   \<and> credits_uid []
        (snd (run_requests [\<lparr>user_id = ''u1'', remaining_seconds = 1\<rparr>]
               (take 2 [(''u1'', Tick), (''u1'', Tick), (''u1'', Grant 4)]))) ''u1''
       = Json (Remaining 0)
   \<and> nonneg_table (snd (run_requests [\<lparr>user_id = ''u1'', remaining_seconds = 1\<rparr>]
               (take 2 [(''u1'', Tick), (''u1'', Tick), (''u1'', Grant 4)])))
   \<and> (0::int) \<le> 0"
proof -
  have a: "nonneg_table [\<lparr>user_id = ''u1'', remaining_seconds = 1\<rparr>]"
    by (simp add: nonneg_table_def)
  have b: "list_all nonneg_amount [(''u1'', Tick), (''u1'', Tick), (''u1'', Grant 4)]"
    by (simp add: nonneg_amount_def)
  have c: "credits_uid []
        (snd (run_requests [\<lparr>user_id = ''u1'', remaining_seconds = 1\<rparr>]
               (take 2 [(''u1'', Tick), (''u1'', Tick), (''u1'', Grant 4)]))) ''u1''
       = Json (Remaining 0)"
    by (simp add: tick_def credits_uid_def update_eq_def select_eq_single_def matching_def parse_row_def json_number_small js_add_small js_sub_small)
  from balance_never_negative [OF a b, of 2 "''u1''" 0] a b c show ?thesis
    by simp
qed

section \<open>Claims C5 and C6: Grant\<close>





text \<open>
  The sum is formed in binary64 here too: a Grant of \<open>-1\<close> on a balance of \<open>2^53 + 2\<close>
  stores \<open>2^53\<close>.
\<close>

lemma negative_grant_rounds:
  "admin_add_credits [] [\<lparr>user_id = ''u1'', remaining_seconds = 9007199254740994\<rparr>] ''u1'' (- 1)
     = (Json (Message ''Credits added''),
        [\<lparr>user_id = ''u1'', remaining_seconds = 9007199254740992\<rparr>])"
proof -
  have one: "round_binary64 (- 1) = - 1" by (simp add: round_binary64_small)
  show ?thesis
    by (simp add: admin_add_credits_def update_eq_def select_eq_single_def matching_def
                  parse_row_def json_number_def js_add_def binary64_near_2p53 one)
qed



section \<open>Claims C7 and C8: missing records and storage failures\<close>

text \<open>
  Claim C7, evaluated at an account without a record. Neither handler answers with an
  error: \<^verbatim>\<open>data\<close> is \<^verbatim>\<open>null\<close>, reading \<^verbatim>\<open>data.remaining_seconds\<close> throws a
  \<^verbatim>\<open>TypeError\<close>, and no response is written. The table is left as it was. The sibling
  handler \<^verbatim>\<open>/admin/add-credits\<close> tests \<^verbatim>\<open>!data\<close> before it reads the field, and
  \<^verbatim>\<open>/login\<close> answers \<^verbatim>\<open>{ error: "User profile not found" }\<close> when its own
  \<^verbatim>\<open>.single()\<close> select finds no row.
\<close>

theorem missing_record_throws:
  "credits_uid [] [\<lparr>user_id = ''u1'', remaining_seconds = 5\<rparr>] ''u2'' = Threw TypeError
   \<and> tick [] [\<lparr>user_id = ''u1'', remaining_seconds = 5\<rparr>] ''u2''
       = (Threw TypeError, [\<lparr>user_id = ''u1'', remaining_seconds = 5\<rparr>])"
  by (simp add: credits_uid_def tick_def select_eq_single_def matching_def parse_row_def json_number_small js_add_small js_sub_small)

text \<open>
  The same holds for every table in which the account has no row.
\<close>

lemma no_row_throws:
  "matching u tbl = [] \<Longrightarrow>
   credits_uid fl tbl u = Threw TypeError \<and> tick fl tbl u = (Threw TypeError, tbl)"
  by (simp add: credits_uid_def tick_def select_none_if_no_row)

text \<open>
  Claim C8, evaluated with failing storage calls. With both calls failing, or with only the
  write failing, Grant still answers \<^verbatim>\<open>{ message: "Credits added" }\<close> and nothing is
  stored. With its update failing, Tick still answers \<^verbatim>\<open>{ exhausted: false }\<close> and the
  balance is not decremented. With the select failing, Tick and GetBalance throw the
  \<^verbatim>\<open>TypeError\<close> of a missing record. In no case does the caller receive a storage error.
\<close>

theorem storage_failure_swallowed:
  "admin_add_credits [True, True] [\<lparr>user_id = ''u1'', remaining_seconds = 5\<rparr>] ''u1'' 10
     = (Json (Message ''Credits added''), [\<lparr>user_id = ''u1'', remaining_seconds = 5\<rparr>])
   \<and> admin_add_credits [False, True] [\<lparr>user_id = ''u1'', remaining_seconds = 5\<rparr>] ''u1'' 10
     = (Json (Message ''Credits added''), [\<lparr>user_id = ''u1'', remaining_seconds = 5\<rparr>])
   \<and> tick [False, True] [\<lparr>user_id = ''u1'', remaining_seconds = 5\<rparr>] ''u1''
     = (Json (Exhausted False), [\<lparr>user_id = ''u1'', remaining_seconds = 5\<rparr>])
   \<and> tick [True] [\<lparr>user_id = ''u1'', remaining_seconds = 5\<rparr>] ''u1''
     = (Threw TypeError, [\<lparr>user_id = ''u1'', remaining_seconds = 5\<rparr>])
   \<and> credits_uid [True] [\<lparr>user_id = ''u1'', remaining_seconds = 5\<rparr>] ''u1'' = Threw TypeError"
  by (simp add: admin_add_credits_def tick_def credits_uid_def call_fails_def
                update_eq_def insert_row_def select_eq_single_def matching_def parse_row_def json_number_small js_add_small js_sub_small)

section \<open>Claim C9: the balance is the sum of the applied deltas\<close>

text \<open>
  Claim C9, as stated, fails above the safe integers. On a balance of 0, a Grant of
  \<open>2^53 = 9007199254740992\<close> followed by a Grant of 1 leaves \<open>2^53\<close>: the second sum is
  formed in binary64 and rounds back. The exact sum of the deltas is \<open>2^53 + 1\<close>.
\<close>

theorem sum_of_deltas_rounds:
  "credits_uid []
     (snd (run_requests [\<lparr>user_id = ''u1'', remaining_seconds = 0\<rparr>]
            (map (Pair ''u1'') [Grant 9007199254740992, Grant 1]))) ''u1''
     = Json (Remaining 9007199254740992)
   \<and> 0 + granted [Grant 9007199254740992, Grant 1]
       - int (successful_ticks
               (fst (run_requests [\<lparr>user_id = ''u1'', remaining_seconds = 0\<rparr>]
                      (map (Pair ''u1'') [Grant 9007199254740992, Grant 1]))))
     = 9007199254740993"
proof -
  have small: "round_binary64 0 = 0" "round_binary64 1 = 1"
    by (simp_all add: round_binary64_small)
  have r: "run_requests [\<lparr>user_id = ''u1'', remaining_seconds = 0\<rparr>]
            (map (Pair ''u1'') [Grant 9007199254740992, Grant 1])
     = ([Json (Message ''Credits added''), Json (Message ''Credits added'')],
        [\<lparr>user_id = ''u1'', remaining_seconds = 9007199254740992\<rparr>])"
    by (simp add: admin_add_credits_def update_eq_def select_eq_single_def matching_def
                  parse_row_def json_number_def js_add_def binary64_near_2p53 small)
  show ?thesis
    unfolding r
    by (simp add: credits_uid_def select_eq_single_def matching_def parse_row_def
                  json_number_def binary64_near_2p53 successful_ticks_def)
qed

text \<open>
  Claim C9, amended. For an account whose record holds \<open>N\<close> and every finite sequence of
  Grant and Tick requests for that account, served one after another on a healthy backend,
  such that every granted amount and every balance reached on the way is a safe integer:
  GetBalance afterwards reports \<open>N\<close> plus the sum of the granted amounts minus the number of
  Tick requests that answered \<open>exhausted = false\<close>.
\<close>

theorem balance_is_sum_of_deltas:
  assumes "select_eq_single False tbl u = Some d"
    and "stays_safe (remaining_seconds d) ops"
  shows "credits_uid [] (snd (run_requests tbl (map (Pair u) ops))) u
           = Json (Remaining (remaining_seconds d + granted ops
                 - int (successful_ticks (fst (run_requests tbl (map (Pair u) ops))))))"
  using run_requests_existing [OF assms]
  by (simp add: credits_uid_def)

theorem balance_is_sum_of_deltas_witness:
  "select_eq_single False [\<lparr>user_id = ''u1'', remaining_seconds = 1\<rparr>] ''u1''
     = Some \<lparr>user_id = ''u1'', remaining_seconds = 1\<rparr>
   \<and> stays_safe 1 [Tick, Tick, Grant 10, Tick]
   \<and> fst (run_requests [\<lparr>user_id = ''u1'', remaining_seconds = 1\<rparr>]
            (map (Pair ''u1'') [Tick, Tick, Grant 10, Tick]))
       = [Json (Exhausted False), Json (Exhausted True), Json (Message ''Credits added''),
          Json (Exhausted False)]
   \<and> credits_uid [] (snd (run_requests [\<lparr>user_id = ''u1'', remaining_seconds = 1\<rparr>]
                            (map (Pair ''u1'') [Tick, Tick, Grant 10, Tick]))) ''u1''
       = Json (Remaining 9)"
proof -
  have h: "select_eq_single False [\<lparr>user_id = ''u1'', remaining_seconds = 1\<rparr>] ''u1''
     = Some \<lparr>user_id = ''u1'', remaining_seconds = 1\<rparr>"
    by (simp add: select_eq_single_def matching_def parse_row_def json_number_small js_add_small js_sub_small)
  have s: "stays_safe 1 [Tick, Tick, Grant 10, Tick]"
    by (simp add: safe_integer_def max_safe_integer_def)
  have s': "stays_safe (remaining_seconds \<lparr>user_id = ''u1'', remaining_seconds = 1\<rparr>)
              [Tick, Tick, Grant 10, Tick]"
    using s by simp
  have r: "fst (run_requests [\<lparr>user_id = ''u1'', remaining_seconds = 1\<rparr>]
            (map (Pair ''u1'') [Tick, Tick, Grant 10, Tick]))
       = [Json (Exhausted False), Json (Exhausted True), Json (Message ''Credits added''),
          Json (Exhausted False)]"
    by (simp add: tick_def admin_add_credits_def update_eq_def select_eq_single_def matching_def parse_row_def json_number_small js_add_small js_sub_small)
  have b: "credits_uid [] (snd (run_requests [\<lparr>user_id = ''u1'', remaining_seconds = 1\<rparr>]
                            (map (Pair ''u1'') [Tick, Tick, Grant 10, Tick]))) ''u1''
       = Json (Remaining 9)"
    using balance_is_sum_of_deltas [OF h s'] r by (simp add: successful_ticks_def)
  from h s r b show ?thesis by (intro conjI)
qed

section \<open>Claim C10: other accounts are left alone\<close>

text \<open>
  Claim C10. For distinct account identifiers \<open>a\<close> and \<open>b\<close>, a Tick or a Grant for \<open>a\<close>
  leaves the rows of \<open>b\<close> as they were, whatever storage calls fail: the update is keyed by
  \<^verbatim>\<open>.eq("user_id", userId)\<close> and the inserted row carries \<^verbatim>\<open>user_id: userId\<close>.
\<close>

theorem other_accounts_untouched:
  assumes "a \<noteq> b"
  shows "matching b (snd (tick fl tbl a)) = matching b tbl
       \<and> matching b (snd (admin_add_credits fl tbl a n)) = matching b tbl"
  using assms
  by (simp add: tick_def admin_add_credits_def Let_def matching_update_other
                matching_insert_other
           split: option.splits)

theorem other_accounts_untouched_witness:
  "''u1'' \<noteq> ''u2''
   \<and> matching ''u2'' (snd (tick [] [\<lparr>user_id = ''u1'', remaining_seconds = 3\<rparr>,
                                    \<lparr>user_id = ''u2'', remaining_seconds = 7\<rparr>] ''u1''))
       = [\<lparr>user_id = ''u2'', remaining_seconds = 7\<rparr>]
   \<and> matching ''u2'' (snd (admin_add_credits [] [\<lparr>user_id = ''u1'', remaining_seconds = 3\<rparr>,
                                    \<lparr>user_id = ''u2'', remaining_seconds = 7\<rparr>] ''u1'' 4))
       = [\<lparr>user_id = ''u2'', remaining_seconds = 7\<rparr>]"
proof -
  have ne: "''u1'' \<noteq> ''u2''" by simp
  from other_accounts_untouched [OF ne, of "[]" "[\<lparr>user_id = ''u1'', remaining_seconds = 3\<rparr>,
                                    \<lparr>user_id = ''u2'', remaining_seconds = 7\<rparr>]" 4]
  show ?thesis
    by (simp add: matching_def)
qed

end
